theory Spec2Isabelle
  imports Main "HOL-Library.Sublist"
begin

section \<open>JavaScript values and errors\<close>

text \<open>
  The program is TypeScript running on a JavaScript engine. Values that cross an unchecked
  boundary (the result of \<^verbatim>\<open>JSON.parse\<close>, the fields copied from a remote
  response) are modelled as JavaScript values. Text is a list of 8-bit characters, read as
  UTF-8. A number keeps the lexeme it was written with: the program never computes with a
  parsed number.
\<close>

datatype jsval =
    JUndefined
  | JNull
  | JBool bool
  | JNum string
  | JStr string
  | JArr "jsval list"
  | JObj "(string \<times> jsval) list"

text \<open>A thrown value: the three kinds of error the program can meet, each with its message.\<close>

datatype error = SyntaxError string | TypeError string | Error string

fun message :: "error \<Rightarrow> string" where
  "message (SyntaxError m) = m"
| "message (TypeError m) = m"
| "message (Error m) = m"

text \<open>\<^verbatim>\<open>!!s\<close> for a string: only the empty string is falsy.\<close>

definition truthy :: "string option \<Rightarrow> bool" where
  "truthy v = (case v of None \<Rightarrow> False | Some s \<Rightarrow> s \<noteq> [])"

text \<open>\<^verbatim>\<open>msg.includes(t)\<close>: \<open>t\<close> occurs in \<open>msg\<close> as a contiguous run.\<close>

fun str_includes :: "string \<Rightarrow> string \<Rightarrow> bool" where
  "str_includes [] t = (t = [])"
| "str_includes (c # cs) t = (prefix t (c # cs) \<or> str_includes cs t)"

section \<open>The engine's JSON.parse\<close>

text \<open>
  \<^verbatim>\<open>JSON.parse\<close> is a built-in of the engine. It is modelled after the JSON
  grammar (ECMA-404): a lexer that runs over the text once, a check of every number and
  string token, and a stack automaton over the tokens. The text of the
  \<^verbatim>\<open>SyntaxError\<close> message is the engine's own (some engines quote the rejected
  text in it, others give a position only), so it is a parameter of \<open>JSON_parse\<close>.
\<close>

datatype token =
    TLBrace | TRBrace | TLBrack | TRBrack | TColon | TComma
  | TStr string
  | TWord string

datatype lexmode = Idle | InStr string | InEsc string | InWord string

definition is_ws :: "char \<Rightarrow> bool" where
  "is_ws c = (c = CHR '' '' \<or> c = CHR 0x09 \<or> c = CHR 0x0A \<or> c = CHR 0x0D)"

definition is_digit :: "char \<Rightarrow> bool" where
  "is_digit c = (48 \<le> (of_char c :: nat) \<and> (of_char c :: nat) \<le> 57)"

definition is_word :: "char \<Rightarrow> bool" where
  "is_word c = (let n = (of_char c :: nat) in
     (48 \<le> n \<and> n \<le> 57) \<or> (65 \<le> n \<and> n \<le> 90) \<or> (97 \<le> n \<and> n \<le> 122)
     \<or> c = CHR ''-'' \<or> c = CHR ''+'' \<or> c = CHR ''.'')"

definition punct :: "char \<Rightarrow> token option" where
  "punct c =
     (if c = CHR ''{'' then Some TLBrace
      else if c = CHR ''}'' then Some TRBrace
      else if c = CHR ''['' then Some TLBrack
      else if c = CHR '']'' then Some TRBrack
      else if c = CHR '':'' then Some TColon
      else if c = CHR '','' then Some TComma
      else None)"

text \<open>
  The lexer. A string token keeps its body as written (escapes undecoded); a word is a
  maximal run of letters, digits, signs and dots, checked afterwards. A control character
  inside a string, a character that starts no token and an unterminated string are errors.
\<close>

fun lex :: "lexmode \<Rightarrow> string \<Rightarrow> token list option" where
  "lex m [] =
     (case m of Idle \<Rightarrow> Some [] | InWord w \<Rightarrow> Some [TWord (rev w)] | _ \<Rightarrow> None)"
| "lex m (c # cs) =
     (case m of
        InStr acc \<Rightarrow>
          if c = CHR 0x22 then map_option (Cons (TStr (rev acc))) (lex Idle cs)
          else if c = CHR 0x5C then lex (InEsc acc) cs
          else if (of_char c :: nat) < 32 then None
          else lex (InStr (c # acc)) cs
      | InEsc acc \<Rightarrow> lex (InStr (c # CHR 0x5C # acc)) cs
      | _ \<Rightarrow>
          (let w = (case m of InWord w \<Rightarrow> w | _ \<Rightarrow> []);
               pre = (case m of InWord w \<Rightarrow> [TWord (rev w)] | _ \<Rightarrow> [])
           in if is_word c then lex (InWord (c # w)) cs
              else if is_ws c then map_option ((@) pre) (lex Idle cs)
              else if c = CHR 0x22 then map_option ((@) pre) (lex (InStr []) cs)
              else (case punct c of
                      None \<Rightarrow> None
                    | Some t \<Rightarrow> map_option (\<lambda>ts. pre @ t # ts) (lex Idle cs))))"

text \<open>Numbers: \<^verbatim>\<open>-? (0 | [1-9][0-9]*) (. [0-9]+)? ([eE] [+-]? [0-9]+)?\<close>.\<close>

definition exp_ok :: "string \<Rightarrow> bool" where
  "exp_ok r =
     (case r of
        [] \<Rightarrow> True
      | e # r' \<Rightarrow>
          (e = CHR ''e'' \<or> e = CHR ''E'') \<and>
          (let ds = (case r' of
                       [] \<Rightarrow> []
                     | s # t \<Rightarrow> if s = CHR ''+'' \<or> s = CHR ''-'' then t else r')
           in ds \<noteq> [] \<and> list_all is_digit ds))"

definition frac_ok :: "string \<Rightarrow> bool" where
  "frac_ok r =
     (case r of
        [] \<Rightarrow> True
      | d # r' \<Rightarrow>
          if d = CHR ''.'' then takeWhile is_digit r' \<noteq> [] \<and> exp_ok (dropWhile is_digit r')
          else exp_ok r)"

definition number_ok :: "string \<Rightarrow> bool" where
  "number_ok s =
     (let u = (case s of [] \<Rightarrow> [] | c # r \<Rightarrow> if c = CHR ''-'' then r else s);
          ip = takeWhile is_digit u
      in ip \<noteq> [] \<and> (hd ip = CHR ''0'' \<longrightarrow> length ip = 1) \<and> frac_ok (dropWhile is_digit u))"

definition word_value :: "string \<Rightarrow> jsval option" where
  "word_value w =
     (if w = ''null'' then Some JNull
      else if w = ''true'' then Some (JBool True)
      else if w = ''false'' then Some (JBool False)
      else if number_ok w then Some (JNum w)
      else None)"

text \<open>
  String bodies. An escape is one of \<^verbatim>\<open>" \ / b f n r t\<close> or \<^verbatim>\<open>u\<close> and four
  hexadecimal digits; anything else after a backslash is an error. A \<^verbatim>\<open>\u\<close> escape
  denotes a UTF-16 code unit; a high surrogate directly followed by an escaped low
  surrogate is one code point. The decoded text is written in UTF-8 (a lone surrogate
  with the same three-byte scheme).
\<close>

definition hex_val :: "char \<Rightarrow> nat option" where
  "hex_val c = (let n = (of_char c :: nat) in
     if 48 \<le> n \<and> n \<le> 57 then Some (n - 48)
     else if 65 \<le> n \<and> n \<le> 70 then Some (n - 55)
     else if 97 \<le> n \<and> n \<le> 102 then Some (n - 87)
     else None)"

definition hex4 :: "char \<Rightarrow> char \<Rightarrow> char \<Rightarrow> char \<Rightarrow> nat option" where
  "hex4 a b c d =
     (case (hex_val a, hex_val b, hex_val c, hex_val d) of
        (Some w, Some x, Some y, Some z) \<Rightarrow> Some (((w * 16 + x) * 16 + y) * 16 + z)
      | _ \<Rightarrow> None)"

definition utf8 :: "nat \<Rightarrow> string" where
  "utf8 n =
     (if n < 128 then [char_of n]
      else if n < 2048 then [char_of (192 + n div 64), char_of (128 + n mod 64)]
      else if n < 65536 then
        [char_of (224 + n div 4096), char_of (128 + (n div 64) mod 64), char_of (128 + n mod 64)]
      else
        [char_of (240 + n div 262144), char_of (128 + (n div 4096) mod 64),
         char_of (128 + (n div 64) mod 64), char_of (128 + n mod 64)])"

definition simple_escape :: "char \<Rightarrow> char option" where
  "simple_escape e =
     (if e = CHR 0x22 \<or> e = CHR 0x5C \<or> e = CHR ''/'' then Some e
      else if e = CHR ''b'' then Some (CHR 0x08)
      else if e = CHR ''f'' then Some (CHR 0x0C)
      else if e = CHR ''n'' then Some (CHR 0x0A)
      else if e = CHR ''r'' then Some (CHR 0x0D)
      else if e = CHR ''t'' then Some (CHR 0x09)
      else None)"

text \<open>The low surrogate escaped right at the head of the text, if there is one.\<close>

definition low_surrogate :: "string \<Rightarrow> nat option" where
  "low_surrogate s =
     (case s of
        b # u # e # f # g # h # _ \<Rightarrow>
          if b = CHR 0x5C \<and> u = CHR ''u'' then
            (case hex4 e f g h of
               Some l \<Rightarrow> if 56320 \<le> l \<and> l < 57344 then Some l else None
             | None \<Rightarrow> None)
          else None
      | _ \<Rightarrow> None)"

fun decode :: "string \<Rightarrow> string option" where
  "decode [] = Some []"
| "decode (c # cs) =
     (if c \<noteq> CHR 0x5C then map_option (Cons c) (decode cs)
      else (case cs of
              [] \<Rightarrow> None
            | e # r \<Rightarrow>
                if e = CHR ''u'' then
                  (case r of
                     a # b # x # d # r' \<Rightarrow>
                       (case hex4 a b x d of
                          None \<Rightarrow> None
                        | Some n \<Rightarrow>
                            (case (if 55296 \<le> n \<and> n < 56320 then low_surrogate r' else None) of
                               Some l \<Rightarrow>
                                 map_option
                                   ((@) (utf8 (65536 + (n - 55296) * 1024 + (l - 56320))))
                                   (decode (drop 6 r'))
                             | None \<Rightarrow> map_option ((@) (utf8 n)) (decode r')))
                   | _ \<Rightarrow> None)
                else (case simple_escape e of
                        None \<Rightarrow> None
                      | Some x \<Rightarrow> map_option (Cons x) (decode r))))"

text \<open>
  The token automaton. The stack holds one frame for each array or object still open,
  innermost first; a frame records what has been read (latest first) and what may come
  next.
\<close>

datatype frame =
    ArrStart
  | ArrVal "jsval list"
  | ArrComma "jsval list"
  | ObjStart
  | ObjKey "(string \<times> jsval) list" string
  | ObjColon "(string \<times> jsval) list" string
  | ObjVal "(string \<times> jsval) list"
  | ObjComma "(string \<times> jsval) list"

datatype pstate = Run "frame list" | Done jsval

fun expects_value :: "frame list \<Rightarrow> bool" where
  "expects_value [] = True"
| "expects_value (ArrStart # _) = True"
| "expects_value (ArrComma _ # _) = True"
| "expects_value (ObjColon _ _ # _) = True"
| "expects_value _ = False"

fun put_value :: "jsval \<Rightarrow> frame list \<Rightarrow> pstate option" where
  "put_value v [] = Some (Done v)"
| "put_value v (ArrStart # r) = Some (Run (ArrVal [v] # r))"
| "put_value v (ArrComma vs # r) = Some (Run (ArrVal (v # vs) # r))"
| "put_value v (ObjColon ps k # r) = Some (Run (ObjVal ((k, v) # ps) # r))"
| "put_value v _ = None"

fun close_array :: "frame list \<Rightarrow> pstate option" where
  "close_array (ArrStart # r) = put_value (JArr []) r"
| "close_array (ArrVal vs # r) = put_value (JArr (rev vs)) r"
| "close_array _ = None"

fun close_object :: "frame list \<Rightarrow> pstate option" where
  "close_object (ObjStart # r) = put_value (JObj []) r"
| "close_object (ObjVal ps # r) = put_value (JObj (rev ps)) r"
| "close_object _ = None"

fun comma :: "frame list \<Rightarrow> pstate option" where
  "comma (ArrVal vs # r) = Some (Run (ArrComma vs # r))"
| "comma (ObjVal ps # r) = Some (Run (ObjComma ps # r))"
| "comma _ = None"

fun colon :: "frame list \<Rightarrow> pstate option" where
  "colon (ObjKey ps k # r) = Some (Run (ObjColon ps k # r))"
| "colon _ = None"

fun put_string :: "string \<Rightarrow> frame list \<Rightarrow> pstate option" where
  "put_string s (ObjStart # r) = Some (Run (ObjKey [] s # r))"
| "put_string s (ObjComma ps # r) = Some (Run (ObjKey ps s # r))"
| "put_string s st = put_value (JStr s) st"

fun pstep :: "pstate \<Rightarrow> token \<Rightarrow> pstate option" where
  "pstep (Done v) t = None"
| "pstep (Run st) TLBrack = (if expects_value st then Some (Run (ArrStart # st)) else None)"
| "pstep (Run st) TLBrace = (if expects_value st then Some (Run (ObjStart # st)) else None)"
| "pstep (Run st) TRBrack = close_array st"
| "pstep (Run st) TRBrace = close_object st"
| "pstep (Run st) TComma = comma st"
| "pstep (Run st) TColon = colon st"
| "pstep (Run st) (TStr b) = (case decode b of None \<Rightarrow> None | Some s \<Rightarrow> put_string s st)"
| "pstep (Run st) (TWord w) = (case word_value w of None \<Rightarrow> None | Some v \<Rightarrow> put_value v st)"

fun run_tokens :: "pstate \<Rightarrow> token list \<Rightarrow> pstate option" where
  "run_tokens p [] = Some p"
| "run_tokens p (t # ts) = (case pstep p t of None \<Rightarrow> None | Some p' \<Rightarrow> run_tokens p' ts)"

text \<open>The value a text denotes, if it is JSON.\<close>

definition json_value :: "string \<Rightarrow> jsval option" where
  "json_value s =
     (case lex Idle s of
        None \<Rightarrow> None
      | Some ts \<Rightarrow>
          (case run_tokens (Run []) ts of
             Some (Done v) \<Rightarrow> Some v
           | _ \<Rightarrow> None))"

text \<open>
  \<^verbatim>\<open>JSON.parse(s)\<close>: the value, or a \<^verbatim>\<open>SyntaxError\<close> whose message is the one
  the engine at hand gives for the rejected text \<open>s\<close> (\<open>syntax_message s\<close>).
\<close>

definition JSON_parse :: "(string \<Rightarrow> string) \<Rightarrow> string \<Rightarrow> error + jsval" where
  "JSON_parse syntax_message s =
     (case json_value s of
        None \<Rightarrow> Inl (SyntaxError (syntax_message s))
      | Some v \<Rightarrow> Inr v)"

text \<open>
  Reading a property \<^verbatim>\<open>v.k\<close>, for the keys the program reads (\<^verbatim>\<open>name\<close>,
  \<^verbatim>\<open>persianName\<close>, \<^verbatim>\<open>emoji\<close>), which no prototype defines: an object gives
  the value of its last entry for the key, \<^verbatim>\<open>null\<close> and \<^verbatim>\<open>undefined\<close>
  throw, every other value gives \<^verbatim>\<open>undefined\<close>.
\<close>

fun get_prop :: "jsval \<Rightarrow> string \<Rightarrow> error + jsval" where
  "get_prop JNull k =
     Inl (TypeError (''Cannot read properties of null (reading '' @ [CHR 0x27] @ k @ [CHR 0x27] @ '')''))"
| "get_prop JUndefined k =
     Inl (TypeError
           (''Cannot read properties of undefined (reading '' @ [CHR 0x27] @ k @ [CHR 0x27] @ '')''))"
| "get_prop (JObj ps) k = Inr (case map_of (rev ps) k of None \<Rightarrow> JUndefined | Some v \<Rightarrow> v)"
| "get_prop v k = Inr JUndefined"

section \<open>Data model\<close>

text \<open>
  \<^verbatim>\<open>Item\<close>, \<^verbatim>\<open>Category\<close> and \<^verbatim>\<open>GameState\<close> are declared in
  \<^verbatim>\<open>types.ts\<close>; the fields are the ones \<^verbatim>\<open>App.tsx\<close> and
  \<^verbatim>\<open>geminiService.ts\<close> read and write. The three fields of an item that
  \<^verbatim>\<open>expandCategoryItems\<close> copies from the remote response are JavaScript values:
  nothing checks that they are strings.
\<close>

record Item =
  item_id :: string
  item_name :: jsval
  persianName :: jsval
  emoji :: jsval
  item_color :: string

record Category =
  cat_id :: string
  cat_name :: string
  icon :: string
  cat_color :: string
  items :: "Item list"

datatype View = main | alphabet | learning_detail | game_types | game_cats | game_active

record GameState =
  view :: View
  selectedCategory :: "Category option"
  selectedGame :: "string option"
  score :: int

section \<open>The environment of one handler run\<close>

text \<open>
  The remote service is opaque: a request names the operation and carries the values the
  prompt is built from, and the environment says how the service answers it (with a
  response, or by throwing). A response is reduced to what the program reads from it:
  \<^verbatim>\<open>response.text\<close> and \<^verbatim>\<open>response.candidates?.[0]?.content?.parts\<close>, each part
  with its \<^verbatim>\<open>inlineData?.data\<close>.
\<close>

datatype request =
    ExpandReq string "jsval list"
  | SpeechReq string
  | ImageReq jsval

datatype part = Part (inlineData: "string option option")

record response =
  resp_text :: "string option"
  resp_parts :: "part list option"

text \<open>\<^verbatim>\<open>window.aistudio\<close>, when the host page provides it: the outcome of its two calls.\<close>

record aistudio =
  hasSelectedApiKey :: "error + bool"
  openSelectKey :: "error + unit"

text \<open>
  \<open>playTTSSound\<close> and \<open>playLocalSpeech\<close> (\<^verbatim>\<open>services/audioPlayer\<close>) are
  not part of the sources at hand: the environment gives the outcome of each call.
  \<open>Date_now i\<close> is what \<^verbatim>\<open>Date.now()\<close> returns when the mapping callback of
  \<open>expandCategoryItems\<close> runs for index \<open>i\<close>. \<open>syntax_message\<close> is the message text
  of the engine's \<^verbatim>\<open>JSON.parse\<close> for a text it rejects.
\<close>

record env =
  API_KEY :: "string option"
  generateContent :: "request \<Rightarrow> error + response"
  playTTSSound :: "string \<Rightarrow> string \<Rightarrow> error + unit"
  playLocalSpeech :: "string \<Rightarrow> error + unit"
  window_aistudio :: "aistudio option"
  Date_now :: "nat \<Rightarrow> int"
  syntax_message :: "string \<Rightarrow> string"

text \<open>What a run does to the outside world, in order. Console output is left out.\<close>

datatype event =
    Remote request
  | PlayTTS string string
  | LocalSpeech string
  | HasSelectedApiKey
  | OpenSelectKey
  | Alert string

fun remote_calls :: "event list \<Rightarrow> request list" where
  "remote_calls [] = []"
| "remote_calls (Remote r # es) = r # remote_calls es"
| "remote_calls (_ # es) = remote_calls es"

fun local_calls :: "event list \<Rightarrow> string list" where
  "local_calls [] = []"
| "local_calls (LocalSpeech t # es) = t # local_calls es"
| "local_calls (_ # es) = local_calls es"

fun notifications :: "event list \<Rightarrow> event list" where
  "notifications [] = []"
| "notifications (Alert m # es) = Alert m # notifications es"
| "notifications (OpenSelectKey # es) = OpenSelectKey # notifications es"
| "notifications (_ # es) = notifications es"

section \<open>services/geminiService.ts\<close>

text \<open>
  The revision modelled is the one under \<^verbatim>\<open>src/services\<close>: \<open>getClient\<close> throws
  when no API key is set. (The other revision kept with the sources builds the client with
  an empty key instead; the code from \<^verbatim>\<open>response.text\<close> to the minted items is the
  same in both.)
\<close>

definition getClient :: "env \<Rightarrow> error + unit" where
  "getClient e = (if truthy (API_KEY e) then Inr () else Inl (Error ''API_KEY_MISSING''))"

text \<open>
  Template literals write a number in decimal. (JavaScript switches to exponent notation
  from \<open>10\<^sup>2\<^sup>1\<close> on; a time in milliseconds and an array index stay far below.)
\<close>

definition digit_char :: "nat \<Rightarrow> char" where
  "digit_char d = ''0123456789'' ! d"

fun string_of_nat :: "nat \<Rightarrow> string" where
  "string_of_nat n =
     (if n < 10 then [digit_char n]
      else string_of_nat (n div 10) @ [digit_char (n mod 10)])"

definition string_of_int :: "int \<Rightarrow> string" where
  "string_of_int t =
     (if t < 0 then CHR ''-'' # string_of_nat (nat (- t)) else string_of_nat (nat t))"

definition new_id :: "string \<Rightarrow> int \<Rightarrow> nat \<Rightarrow> string" where
  "new_id categoryName t index =
     ''dyn-'' @ categoryName @ ''-'' @ string_of_int t @ ''-'' @ string_of_nat index"

text \<open>The callback of \<^verbatim>\<open>data.map\<close> at one element.\<close>

definition make_item :: "string \<Rightarrow> int \<Rightarrow> nat \<Rightarrow> jsval \<Rightarrow> error + Item" where
  "make_item categoryName t index it =
     (case get_prop it ''name'' of
        Inl e \<Rightarrow> Inl e
      | Inr n \<Rightarrow>
          (case get_prop it ''persianName'' of
             Inl e \<Rightarrow> Inl e
           | Inr p \<Rightarrow>
               (case get_prop it ''emoji'' of
                  Inl e \<Rightarrow> Inl e
                | Inr m \<Rightarrow>
                    Inr \<lparr>item_id = new_id categoryName t index, item_name = n,
                         persianName = p, emoji = m, item_color = ''bg-white''\<rparr>)))"

text \<open>\<^verbatim>\<open>data.map\<close> over the elements from index \<open>k\<close> on; the first throw ends it.\<close>

fun map_items :: "string \<Rightarrow> (nat \<Rightarrow> int) \<Rightarrow> nat \<Rightarrow> jsval list \<Rightarrow> error + Item list" where
  "map_items categoryName now k [] = Inr []"
| "map_items categoryName now k (it # rest) =
     (case make_item categoryName (now k) k it of
        Inl e \<Rightarrow> Inl e
      | Inr x \<Rightarrow>
          (case map_items categoryName now (Suc k) rest of
             Inl e \<Rightarrow> Inl e
           | Inr xs \<Rightarrow> Inr (x # xs)))"

text \<open>
  \<^verbatim>\<open>data.map(...)\<close> for a parsed value: only an array has \<^verbatim>\<open>map\<close>; a JSON value
  is never a function, so on any other value the call throws.
\<close>

fun data_map :: "string \<Rightarrow> (nat \<Rightarrow> int) \<Rightarrow> jsval \<Rightarrow> error + Item list" where
  "data_map categoryName now (JArr vs) = map_items categoryName now 0 vs"
| "data_map categoryName now JNull =
     Inl (TypeError ''Cannot read properties of null (reading 'map')'')"
| "data_map categoryName now v = Inl (TypeError ''data.map is not a function'')"

text \<open>Lines 52 to 61 of \<open>expandCategoryItems\<close>: from \<^verbatim>\<open>response.text\<close> to the items.\<close>

definition items_of_text ::
  "(string \<Rightarrow> string) \<Rightarrow> string \<Rightarrow> (nat \<Rightarrow> int) \<Rightarrow> string option \<Rightarrow> error + Item list" where
  "items_of_text msg categoryName now t =
     (case JSON_parse msg (if truthy t then the t else ''[]'') of
        Inl e \<Rightarrow> Inl e
      | Inr data \<Rightarrow> data_map categoryName now data)"

definition expandCategoryItems ::
  "env \<Rightarrow> string \<Rightarrow> Item list \<Rightarrow> event list \<times> (error + Item list)" where
  "expandCategoryItems e categoryName existingItems =
     (case getClient e of
        Inl err \<Rightarrow> ([], Inl err)
      | Inr _ \<Rightarrow>
          (let req = ExpandReq categoryName (map item_name existingItems)
           in ([Remote req],
               case generateContent e req of
                 Inl err \<Rightarrow> Inl err
               | Inr r \<Rightarrow>
                   items_of_text (syntax_message e) categoryName (Date_now e) (resp_text r))))"

definition generateSpeech :: "env \<Rightarrow> string \<Rightarrow> event list \<times> (error + string option)" where
  "generateSpeech e txt =
     (case getClient e of
        Inl err \<Rightarrow> ([], Inl err)
      | Inr _ \<Rightarrow>
          ([Remote (SpeechReq txt)],
           case generateContent e (SpeechReq txt) of
             Inl err \<Rightarrow> Inl err
           | Inr r \<Rightarrow>
               Inr (case resp_parts r of
                      None \<Rightarrow> None
                    | Some [] \<Rightarrow> None
                    | Some (p # _) \<Rightarrow> (case inlineData p of None \<Rightarrow> None | Some d \<Rightarrow> d))))"

text \<open>The loop of \<open>generateItemImage\<close>: the first part that has inline data.\<close>

fun first_inline :: "part list \<Rightarrow> string option" where
  "first_inline [] = None"
| "first_inline (p # ps) =
     (case inlineData p of
        Some d \<Rightarrow> Some (''data:image/png;base64,'' @ (case d of None \<Rightarrow> ''undefined'' | Some x \<Rightarrow> x))
      | None \<Rightarrow> first_inline ps)"

definition generateItemImage ::
  "env \<Rightarrow> jsval \<Rightarrow> string \<Rightarrow> event list \<times> (error + string option)" where
  "generateItemImage e itemName categoryName =
     (case getClient e of
        Inl err \<Rightarrow> ([], Inl err)
      | Inr _ \<Rightarrow>
          ([Remote (ImageReq itemName)],
           case generateContent e (ImageReq itemName) of
             Inl err \<Rightarrow> Inl err
           | Inr r \<Rightarrow>
               (case resp_parts r of
                  None \<Rightarrow> Inr None
                | Some ps \<Rightarrow> Inr (first_inline ps))))"

section \<open>App.tsx: the controller\<close>

text \<open>
  The component's state variables, together with the two things a handler reaches outside
  them: the image store and the trace of what the handlers did to the outside world.
\<close>

text \<open>
  Modelled from the spec: \<open>imageStorage\<close> (\<^verbatim>\<open>services/storage\<close> is not part of the
  sources at hand). It is a key-value store: \<^verbatim>\<open>get\<close> returns the asset stored under
  the key or nothing and never throws; \<^verbatim>\<open>set\<close> stores the asset under the key and
  does not throw either.
\<close>

record App =
  categories :: "Category list"
  state :: GameState
  learningIndex :: int
  showPersian :: bool
  isSpeaking :: bool
  isExpanding :: bool
  isGeneratingImg :: bool
  itemImage :: "string option"
  imageStorage :: "string \<rightharpoonup> string"
  trace :: "event list"

text \<open>
  \<^verbatim>\<open>const saved = localStorage.getItem(key); return saved ? JSON.parse(saved) : INITIAL_CATEGORIES\<close>.
  \<open>saved\<close> is the stored record, if there is one. \<open>INITIAL_CATEGORIES\<close> comes from
  \<^verbatim>\<open>constants.ts\<close>, which is not part of the sources at hand: it is a parameter,
  given as the JavaScript value it denotes. The result is not checked against the catalog
  type. \<open>msg\<close> is the engine's message text for \<^verbatim>\<open>JSON.parse\<close>.
\<close>

definition load_categories ::
  "(string \<Rightarrow> string) \<Rightarrow> jsval \<Rightarrow> string option \<Rightarrow> error + jsval" where
  "load_categories msg INITIAL_CATEGORIES saved =
     (if truthy saved then JSON_parse msg (the saved) else Inr INITIAL_CATEGORIES)"

text \<open>\<^verbatim>\<open>xs[i]\<close>: \<^verbatim>\<open>undefined\<close> outside the array.\<close>

definition at_index :: "'a list \<Rightarrow> int \<Rightarrow> 'a option" where
  "at_index xs i = (if 0 \<le> i \<and> i < int (length xs) then Some (xs ! nat i) else None)"

text \<open>\<^verbatim>\<open>state.selectedCategory?.items[learningIndex]\<close>\<close>

definition current_item :: "App \<Rightarrow> Item option" where
  "current_item s =
     (case selectedCategory (state s) of
        None \<Rightarrow> None
      | Some c \<Rightarrow> at_index (items c) (learningIndex s))"

definition ensureApiKey :: "env \<Rightarrow> event list \<times> (error + bool)" where
  "ensureApiKey e =
     (case window_aistudio e of
        None \<Rightarrow> ([], Inr True)
      | Some a \<Rightarrow>
          (case hasSelectedApiKey a of
             Inl err \<Rightarrow> ([HasSelectedApiKey], Inl err)
           | Inr hasKey \<Rightarrow>
               if \<not> hasKey then
                 ([HasSelectedApiKey, OpenSelectKey],
                  case openSelectKey a of Inl err \<Rightarrow> Inl err | Inr _ \<Rightarrow> Inr True)
               else ([HasSelectedApiKey], Inr True)))"

definition handleApiError :: "env \<Rightarrow> error \<Rightarrow> event list \<times> (error + unit)" where
  "handleApiError e err =
     (let msg = message err
      in if str_includes msg ''401'' \<or> str_includes msg ''403'' \<or> str_includes msg ''key'' then
           (case window_aistudio e of
              Some a \<Rightarrow> ([OpenSelectKey], openSelectKey a)
            | None \<Rightarrow> ([Alert ''Please check your API Key configuration.''], Inr ()))
         else if str_includes msg ''Safety'' \<or> str_includes msg ''blocked'' then
           ([Alert ''The Magic thinks this might be a bit too sensitive to draw. Let's try another word!''],
            Inr ())
         else
           ([Alert ''The Magic is taking a break (Connection error). Please try again in a moment!''],
            Inr ()))"

text \<open>The effect that runs when the displayed item changes: the only reader of the image store.\<close>

definition loadImage :: "App \<Rightarrow> App" where
  "loadImage s =
     (if view (state s) = learning_detail then
        (case current_item s of
           None \<Rightarrow> s
         | Some item \<Rightarrow> s\<lparr>itemImage := imageStorage s (''img_v5_'' @ item_id item)\<rparr>)
      else s)"

text \<open>
  A handler is an async function: it runs in stretches that end at an \<^verbatim>\<open>await\<close>, and
  other handlers may run between two of its stretches. What it reads from the component's
  state variables is what they held in the render it was created in (its closure); what it
  writes with a setter goes to the state that is current when the stretch runs.
  \<open>handleSpeech\<close> sets its busy flag before its first await; \<open>handleImageGen\<close> and
  \<open>handleExpand\<close> first await \<open>ensureApiKey\<close> and set the flag after it.

  \<open>handleSpeech\<close> and \<open>handleImageGen\<close> are given as one uninterrupted run, from the
  state the closure holds to the state after the last await; \<open>handleExpand\<close> is given
  stretch by stretch, and then as an uninterrupted run. The second component of a result is
  the error the handler's promise rejects with, if it does.

  The inner \<^verbatim>\<open>try\<close> of \<open>handleSpeech\<close>: the remote attempt, and whether it played.
\<close>

definition remote_speech :: "env \<Rightarrow> string \<Rightarrow> event list \<times> bool" where
  "remote_speech e txt =
     (case generateSpeech e txt of
        (ev, Inl err) \<Rightarrow> (ev, False)
      | (ev, Inr audio) \<Rightarrow>
          if truthy audio then
            (ev @ [PlayTTS (the audio) txt],
             case playTTSSound e (the audio) txt of Inl err \<Rightarrow> False | Inr _ \<Rightarrow> True)
          else (ev, False))"

definition handleSpeech :: "env \<Rightarrow> string \<Rightarrow> App \<Rightarrow> App \<times> error option" where
  "handleSpeech e txt s =
     (if isSpeaking s then (s, None)
      else
        (let s1 = s\<lparr>isSpeaking := True\<rparr>;
             (ev1, played) = remote_speech e txt;
             (ev2, r) = (if \<not> played then ([LocalSpeech txt], playLocalSpeech e txt)
                         else ([], Inr ()))
         in (case r of
               Inl err \<Rightarrow> (s1\<lparr>trace := trace s1 @ ev1 @ ev2, isSpeaking := False\<rparr>, None)
             | Inr _ \<Rightarrow> (s1\<lparr>trace := trace s1 @ ev1 @ ev2, isSpeaking := False\<rparr>, None))))"

definition handleImageGen :: "env \<Rightarrow> App \<Rightarrow> App \<times> error option" where
  "handleImageGen e s =
     (case selectedCategory (state s) of
        None \<Rightarrow> (s, None)
      | Some sel \<Rightarrow>
          (case at_index (items sel) (learningIndex s) of
             None \<Rightarrow> (s, None)
           | Some item \<Rightarrow>
               if isGeneratingImg s then (s, None)
               else
                 (case ensureApiKey e of
                    (ev0, Inl err) \<Rightarrow> (s\<lparr>trace := trace s @ ev0\<rparr>, Some err)
                  | (ev0, Inr _) \<Rightarrow>
                      (let s1 = s\<lparr>trace := trace s @ ev0, isGeneratingImg := True\<rparr>
                       in (case generateItemImage e (item_name item) (cat_name sel) of
                             (ev1, Inr url) \<Rightarrow>
                               if truthy url then
                                 (s1\<lparr>trace := trace s1 @ ev1,
                                     imageStorage :=
                                       (imageStorage s1)(''img_v5_'' @ item_id item \<mapsto> the url),
                                     itemImage := url,
                                     isGeneratingImg := False\<rparr>, None)
                               else (s1\<lparr>trace := trace s1 @ ev1, isGeneratingImg := False\<rparr>, None)
                           | (ev1, Inl err) \<Rightarrow>
                               (case handleApiError e err of
                                  (ev2, r) \<Rightarrow>
                                    (s1\<lparr>trace := trace s1 @ ev1 @ ev2, isGeneratingImg := False\<rparr>,
                                     case r of Inl err' \<Rightarrow> Some err' | Inr _ \<Rightarrow> None)))))))"

text \<open>
  The merge of \<open>handleExpand\<close>:
  \<^verbatim>\<open>categories.map(c => c.id === selected.id ? { ...c, items: [...c.items, ...newItems] } : c)\<close>.
\<close>

definition merge_items :: "string \<Rightarrow> Item list \<Rightarrow> Category list \<Rightarrow> Category list" where
  "merge_items selected_id newItems cs =
     map (\<lambda>c. if cat_id c = selected_id then c\<lparr>items := items c @ newItems\<rparr> else c) cs"

text \<open>
  \<open>handleExpand\<close>, stretch by stretch; \<open>c\<close> is the state its closure holds and
  \<open>cur\<close> the state current when the stretch runs.

  The guard, read from the closure: the selected category when the run is let in.
\<close>

definition expand_guard :: "App \<Rightarrow> Category option" where
  "expand_guard c =
     (case selectedCategory (state c) of
        None \<Rightarrow> None
      | Some sel \<Rightarrow> if isExpanding c then None else Some sel)"

text \<open>
  After \<^verbatim>\<open>await ensureApiKey()\<close>: if it threw, the promise rejects; otherwise the flag
  is set and \<open>expandCategoryItems\<close> is called with the closure's selected category.
\<close>

definition expand_begin :: "env \<Rightarrow> Category \<Rightarrow> App \<Rightarrow> App \<times> error option" where
  "expand_begin e sel cur =
     (case ensureApiKey e of
        (ev0, Inl err) \<Rightarrow> (cur\<lparr>trace := trace cur @ ev0\<rparr>, Some err)
      | (ev0, Inr _) \<Rightarrow>
          (cur\<lparr>trace := trace cur @ ev0 @ fst (expandCategoryItems e (cat_name sel) (items sel)),
               isExpanding := True\<rparr>, None))"

text \<open>
  After the call has settled: the rest of the \<^verbatim>\<open>try\<close>, the \<^verbatim>\<open>catch\<close> and the
  \<^verbatim>\<open>finally\<close>. The merge maps the closure's \<^verbatim>\<open>categories\<close> and
  \<^verbatim>\<open>setCategories(updated)\<close> replaces the current catalog by the result; the selection
  is refreshed by a functional update, from the current state:
  \<^verbatim>\<open>setState(s => ({ ...s, selectedCategory: updated.find(cat => cat.id === s.selectedCategory?.id) || s.selectedCategory }))\<close>.
\<close>

definition expand_finish :: "env \<Rightarrow> App \<Rightarrow> Category \<Rightarrow> App \<Rightarrow> App \<times> error option" where
  "expand_finish e c sel cur =
     (case snd (expandCategoryItems e (cat_name sel) (items sel)) of
        Inr newItems \<Rightarrow>
          if length newItems > 0 then
            (let updated = merge_items (cat_id sel) newItems (categories c)
             in (cur\<lparr>categories := updated,
                    state := (state cur)\<lparr>selectedCategory :=
                      (case selectedCategory (state cur) of
                         None \<Rightarrow> None
                       | Some shown \<Rightarrow>
                           (case find (\<lambda>cat. cat_id cat = cat_id shown) updated of
                              Some x \<Rightarrow> Some x
                            | None \<Rightarrow> Some shown))\<rparr>,
                    isExpanding := False\<rparr>, None))
          else (cur\<lparr>isExpanding := False\<rparr>, None)
      | Inl err \<Rightarrow>
          (case handleApiError e err of
             (ev2, r) \<Rightarrow>
               (cur\<lparr>trace := trace cur @ ev2, isExpanding := False\<rparr>,
                case r of Inl err' \<Rightarrow> Some err' | Inr _ \<Rightarrow> None)))"

text \<open>An uninterrupted run: no other handler runs between the stretches.\<close>

definition handleExpand :: "env \<Rightarrow> App \<Rightarrow> App \<times> error option" where
  "handleExpand e s =
     (case expand_guard s of
        None \<Rightarrow> (s, None)
      | Some sel \<Rightarrow>
          (case expand_begin e sel s of
             (s1, Some err) \<Rightarrow> (s1, Some err)
           | (s1, None) \<Rightarrow> expand_finish e s sel s1))"

text \<open>
  The category picker of the \<open>learning_detail\<close> view, as the two revisions kept in
  \<^verbatim>\<open>App.tsx\<close> write it. The first (storage key \<^verbatim>\<open>kids_joy_v5_data\<close>):
  \<^verbatim>\<open>setState({ ...state, selectedCategory: c }); setLearningIndex(0);\<close>
  The second (\<^verbatim>\<open>kids_joy_v9_data\<close>) adds \<^verbatim>\<open>setShowPersian(false);\<close>.
  The other handlers above are those of the first revision.
\<close>

definition pick_category_v5 :: "Category \<Rightarrow> App \<Rightarrow> App" where
  "pick_category_v5 c s = s\<lparr>state := (state s)\<lparr>selectedCategory := Some c\<rparr>, learningIndex := 0\<rparr>"

definition pick_category_v9 :: "Category \<Rightarrow> App \<Rightarrow> App" where
  "pick_category_v9 c s =
     s\<lparr>state := (state s)\<lparr>selectedCategory := Some c\<rparr>, learningIndex := 0, showPersian := False\<rparr>"

text \<open>
  The PREV and NEXT buttons of the same view (both revisions); the view is rendered only
  with a selected category.
\<close>

definition prev_item :: "App \<Rightarrow> App" where
  "prev_item s =
     (case selectedCategory (state s) of
        None \<Rightarrow> s
      | Some sel \<Rightarrow>
          s\<lparr>learningIndex :=
              (if learningIndex s > 0 then learningIndex s - 1 else int (length (items sel)) - 1),
            showPersian := False\<rparr>)"

definition next_item :: "App \<Rightarrow> App" where
  "next_item s =
     (case selectedCategory (state s) of
        None \<Rightarrow> s
      | Some sel \<Rightarrow>
          s\<lparr>learningIndex :=
              (if learningIndex s < int (length (items sel)) - 1 then learningIndex s + 1 else 0),
            showPersian := False\<rparr>)"

section \<open>Conditions the properties are stated with\<close>

text \<open>
  The remote path of \<open>handleSpeech\<close> succeeds: synthesis returns audio and playing it
  does not throw.
\<close>

definition remote_speech_ok :: "env \<Rightarrow> string \<Rightarrow> bool" where
  "remote_speech_ok e txt =
     (case snd (generateSpeech e txt) of
        Inl err \<Rightarrow> False
      | Inr audio \<Rightarrow> truthy audio \<and> playTTSSound e (the audio) txt = Inr ())"

text \<open>
  A response text that is not JSON, or is JSON but not an array (\<^verbatim>\<open>response.text || "[]"\<close>
  applied first).
\<close>

definition malformed_response :: "string option \<Rightarrow> bool" where
  "malformed_response t =
     (case json_value (if truthy t then the t else ''[]'') of
        None \<Rightarrow> True
      | Some (JArr vs) \<Rightarrow> False
      | Some v \<Rightarrow> True)"

section \<open>A small catalog and some environments\<close>

definition apple :: Item where
  "apple = \<lparr>item_id = ''apple'', item_name = JStr ''Apple'', persianName = JStr ''sib'',
            emoji = JStr ''(apple)'', item_color = ''bg-red-400''\<rparr>"

definition banana :: Item where
  "banana = \<lparr>item_id = ''banana'', item_name = JStr ''Banana'', persianName = JStr ''moz'',
             emoji = JStr ''(banana)'', item_color = ''bg-yellow-400''\<rparr>"

definition cat_item :: Item where
  "cat_item = \<lparr>item_id = ''cat'', item_name = JStr ''Cat'', persianName = JStr ''gorbe'',
               emoji = JStr ''(cat)'', item_color = ''bg-orange-400''\<rparr>"

definition fruits :: Category where
  "fruits = \<lparr>cat_id = ''fruits'', cat_name = ''Fruits'', icon = ''(fruits)'',
             cat_color = ''bg-red-500'', items = [apple, banana]\<rparr>"

definition animals :: Category where
  "animals = \<lparr>cat_id = ''animals'', cat_name = ''Animals'', icon = ''(animals)'',
              cat_color = ''bg-green-500'', items = [cat_item]\<rparr>"

text \<open>A built-in catalog, as the value \<^verbatim>\<open>INITIAL_CATEGORIES\<close> denotes.\<close>

definition initial_catalog :: jsval where
  "initial_catalog =
     JArr [JObj [(''id'', JStr ''fruits''), (''name'', JStr ''Fruits''), (''icon'', JStr ''(fruits)''),
                 (''color'', JStr ''bg-red-500''),
                 (''items'', JArr [JObj [(''id'', JStr ''apple''), (''name'', JStr ''Apple''),
                                        (''persianName'', JStr ''sib''), (''emoji'', JStr ''(apple)''),
                                        (''color'', JStr ''bg-red-400'')]])]]"

text \<open>In the \<open>learning_detail\<close> view on Fruits, the localized name revealed, nothing in flight.\<close>

definition app0 :: App where
  "app0 = \<lparr>categories = [animals, fruits],
           state = \<lparr>view = learning_detail, selectedCategory = Some fruits,
                    selectedGame = None, score = 0\<rparr>,
           learningIndex = 1, showPersian = True,
           isSpeaking = False, isExpanding = False, isGeneratingImg = False,
           itemImage = None, imageStorage = Map.empty, trace = []\<rparr>"

text \<open>The same session with all three operations in flight.\<close>

definition app_busy :: App where
  "app_busy = app0\<lparr>isSpeaking := True, isExpanding := True, isGeneratingImg := True\<rparr>"

text \<open>A service that answers every request well; the expansion answer is the spec's example.\<close>

definition good_text :: string where
  \<open>good_text = ''[{"name": "Cherry", "persianName": "gilas", "emoji": "(cherry)"}, {"name": "Date", "persianName": "khorma", "emoji": "(date)"}]''\<close>

fun remote_good :: "request \<Rightarrow> error + response" where
  "remote_good (ExpandReq c names) = Inr \<lparr>resp_text = Some good_text, resp_parts = None\<rparr>"
| "remote_good (SpeechReq t) =
     Inr \<lparr>resp_text = None, resp_parts = Some [Part (Some (Some ''UklGRg''))]\<rparr>"
| "remote_good (ImageReq n) =
     Inr \<lparr>resp_text = None, resp_parts = Some [Part None, Part (Some (Some ''iVBORw''))]\<rparr>"

text \<open>The two items \<open>expandCategoryItems\<close> makes of that answer for Fruits at the still clock below.\<close>

definition cherry :: Item where
  "cherry = \<lparr>item_id = ''dyn-Fruits-1700000000000-0'', item_name = JStr ''Cherry'',
             persianName = JStr ''gilas'', emoji = JStr ''(cherry)'', item_color = ''bg-white''\<rparr>"

definition date_item :: Item where
  "date_item = \<lparr>item_id = ''dyn-Fruits-1700000000000-1'', item_name = JStr ''Date'',
                persianName = JStr ''khorma'', emoji = JStr ''(date)'', item_color = ''bg-white''\<rparr>"

text \<open>A service whose every answer carries the text \<^verbatim>\<open>not json\<close> and no parts.\<close>

fun remote_garbled :: "request \<Rightarrow> error + response" where
  "remote_garbled r = Inr \<lparr>resp_text = Some ''not json'', resp_parts = None\<rparr>"

fun play_ok :: "string \<Rightarrow> string \<Rightarrow> error + unit" where
  "play_ok audio t = Inr ()"

fun local_ok :: "string \<Rightarrow> error + unit" where
  "local_ok t = Inr ()"

text \<open>A clock that stands still for the length of a run: 2023-11-14T22:13:20Z.\<close>

fun still_clock :: "nat \<Rightarrow> int" where
  "still_clock i = 1700000000000"

text \<open>An engine whose \<^verbatim>\<open>SyntaxError\<close> message quotes the rejected text.\<close>

fun quoting_message :: "string \<Rightarrow> string" where
  \<open>quoting_message s = ''Unexpected token, "'' @ s @ ''" is not valid JSON''\<close>

definition env_good :: env where
  "env_good = \<lparr>API_KEY = Some ''k'', generateContent = remote_good, playTTSSound = play_ok,
               playLocalSpeech = local_ok, window_aistudio = None, Date_now = still_clock,
               syntax_message = quoting_message\<rparr>"

definition env_garbled :: env where
  "env_garbled = env_good\<lparr>generateContent := remote_garbled\<rparr>"

text \<open>No API key: \<open>getClient\<close> throws before any request is sent.\<close>

definition env_nokey :: env where
  "env_nokey = env_good\<lparr>API_KEY := None\<rparr>"

text \<open>A service that answers an expansion with one empty object, at the same still clock.\<close>

definition nameless :: Item where
  "nameless = \<lparr>item_id = ''dyn-Fruits-1700000000000-0'', item_name = JUndefined,
               persianName = JUndefined, emoji = JUndefined, item_color = ''bg-white''\<rparr>"

fun remote_blank :: "request \<Rightarrow> error + response" where
  "remote_blank r = Inr \<lparr>resp_text = Some ''[{}]'', resp_parts = None\<rparr>"

definition env_blank :: env where
  "env_blank = env_good\<lparr>generateContent := remote_blank\<rparr>"

definition nameless_animal :: Item where
  "nameless_animal = \<lparr>item_id = ''dyn-Animals-1700000000000-0'', item_name = JUndefined,
                      persianName = JUndefined, emoji = JUndefined, item_color = ''bg-white''\<rparr>"

text \<open>
  The host page provides \<^verbatim>\<open>window.aistudio\<close> and a key is selected:
  \<open>ensureApiKey\<close> asks the page and waits for its answer.
\<close>

definition studio :: aistudio where
  "studio = \<lparr>hasSelectedApiKey = Inr True, openSelectKey = Inr ()\<rparr>"

definition env_first :: env where
  "env_first = env_good\<lparr>window_aistudio := Some studio\<rparr>"

definition env_second :: env where
  "env_second = env_blank\<lparr>window_aistudio := Some studio\<rparr>"

text \<open>
  Two runs of \<open>handleExpand\<close> that overlap. The expand button is clicked twice while the
  first run still waits for \<open>ensureApiKey\<close>: no flag is set yet, so both runs are created
  in the render \<open>app0\<close> and both pass the guard. Then both set the flag and send their
  request; the first run (answered as by \<open>env_first\<close>) finishes, then the second
  (\<open>env_second\<close>).
\<close>

definition both_begun :: App where
  "both_begun = fst (expand_begin env_second fruits (fst (expand_begin env_first fruits app0)))"

definition first_merged :: App where
  "first_merged = fst (expand_finish env_first app0 fruits both_begun)"

definition second_merged :: App where
  "second_merged = fst (expand_finish env_second app0 fruits first_merged)"

text \<open>
  The same with a pick in between: expand is clicked on Fruits, Animals is picked while
  that run still waits for \<open>ensureApiKey\<close>, and expand is clicked again, in the render
  \<open>picked_animals\<close>. The run for Fruits finishes first, then the run for Animals.
\<close>

definition picked_animals :: App where
  "picked_animals = pick_category_v5 animals app0"

definition both_begun_apart :: App where
  "both_begun_apart =
     fst (expand_begin env_second animals (fst (expand_begin env_first fruits picked_animals)))"

definition fruits_merged :: App where
  "fruits_merged = fst (expand_finish env_first app0 fruits both_begun_apart)"

definition animals_merged :: App where
  "animals_merged = fst (expand_finish env_second picked_animals animals fruits_merged)"

section \<open>Evaluating the model on the small catalog\<close>

declare string_of_nat.simps [simp del]

lemma value_good_text:
  "json_value good_text =
     Some (JArr [JObj [(''name'', JStr ''Cherry''), (''persianName'', JStr ''gilas''),
                       (''emoji'', JStr ''(cherry)'')],
                 JObj [(''name'', JStr ''Date''), (''persianName'', JStr ''khorma''),
                       (''emoji'', JStr ''(date)'')]])"
  by code_simp

lemma value_not_json: "json_value ''not json'' = None"
  by code_simp

lemma value_monkey: "json_value ''monkey'' = None"
  by code_simp

lemma value_number: "json_value ''42'' = Some (JNum ''42'')"
  by code_simp

lemma value_empty_object: "json_value ''{}'' = Some (JObj [])"
  by code_simp

lemma value_one_object: "json_value ''[{}]'' = Some (JArr [JObj []])"
  by code_simp

lemma value_empty_array: "json_value ''[]'' = Some (JArr [])"
  by code_simp

lemma clock_text: "string_of_int 1700000000000 = ''1700000000000''"
  by (simp add: string_of_int_def string_of_nat.simps digit_char_def)

lemma index_text: "string_of_nat 0 = ''0''" "string_of_nat (Suc 0) = ''1''"
  by (simp_all add: string_of_nat.simps digit_char_def)

lemma items_good:
  "items_of_text msg ''Fruits'' still_clock (Some good_text) = Inr [cherry, date_item]"
proof -
  have "good_text \<noteq> []" by (simp add: good_text_def)
  then show ?thesis
    by (simp add: items_of_text_def JSON_parse_def truthy_def value_good_text make_item_def
        new_id_def clock_text index_text cherry_def date_item_def)
qed

lemma expand_good:
  "expandCategoryItems env_good ''Fruits'' [apple, banana] =
     ([Remote (ExpandReq ''Fruits'' [JStr ''Apple'', JStr ''Banana''])], Inr [cherry, date_item])"
  by (simp add: expandCategoryItems_def env_good_def getClient_def truthy_def items_good
      apple_def banana_def)

lemma expand_garbled:
  "expandCategoryItems env_garbled ''Fruits'' [apple, banana] =
     ([Remote (ExpandReq ''Fruits'' [JStr ''Apple'', JStr ''Banana''])],
      Inl (SyntaxError (quoting_message ''not json'')))"
  by (simp add: expandCategoryItems_def env_garbled_def env_good_def getClient_def truthy_def
      items_of_text_def JSON_parse_def value_not_json apple_def banana_def
      del: quoting_message.simps)

lemma no_key_dialog: "ensureApiKey env_good = ([], Inr True)" "ensureApiKey env_garbled = ([], Inr True)"
  by (simp_all add: ensureApiKey_def env_good_def env_garbled_def)

section \<open>Single flight and release of the busy flags\<close>

lemma handleSpeech_busy: "isSpeaking s \<Longrightarrow> handleSpeech e t s = (s, None)"
  by (simp add: handleSpeech_def)

lemma handleExpand_busy: "isExpanding s \<Longrightarrow> handleExpand e s = (s, None)"
  by (simp add: handleExpand_def expand_guard_def split: option.splits)

lemma handleImageGen_busy: "isGeneratingImg s \<Longrightarrow> handleImageGen e s = (s, None)"
  by (simp add: handleImageGen_def split: option.splits)

text \<open>
  C6. A handler called while its own busy flag is set returns at its guard: the whole
  state (catalog, image store, every flag) is the one it was called in, the trace has no
  new entry (so no remote request was sent), and the promise does not reject.
\<close>

theorem single_flight_noop:
  "(isSpeaking s \<longrightarrow> handleSpeech e t s = (s, None)) \<and>
   (isExpanding s \<longrightarrow> handleExpand e s = (s, None)) \<and>
   (isGeneratingImg s \<longrightarrow> handleImageGen e s = (s, None))"
  by (simp add: handleSpeech_busy handleExpand_busy handleImageGen_busy)

theorem single_flight_noop_witness:
  "isSpeaking app_busy \<and> isExpanding app_busy \<and> isGeneratingImg app_busy \<and>
   handleSpeech env_good ''Apple'' app_busy = (app_busy, None) \<and>
   handleExpand env_good app_busy = (app_busy, None) \<and>
   handleImageGen env_good app_busy = (app_busy, None)"
  using single_flight_noop [of app_busy env_good "''Apple''"]
  by (simp add: app_busy_def)

lemma handleSpeech_releases: "\<not> isSpeaking s \<Longrightarrow> \<not> isSpeaking (fst (handleSpeech e t s))"
  by (simp add: handleSpeech_def Let_def split: prod.splits sum.splits)

lemma handleExpand_releases: "\<not> isExpanding s \<Longrightarrow> \<not> isExpanding (fst (handleExpand e s))"
  by (simp add: handleExpand_def expand_guard_def expand_begin_def expand_finish_def Let_def
      split: prod.splits sum.splits option.splits)

lemma handleImageGen_releases:
  "\<not> isGeneratingImg s \<Longrightarrow> \<not> isGeneratingImg (fst (handleImageGen e s))"
  by (simp add: handleImageGen_def Let_def split: prod.splits sum.splits option.splits)

text \<open>
  C7. A handler that is let in (its busy flag is clear when it is called) ends with the
  flag clear, whatever the environment does: the remote call, the playback, the local
  speech, the key dialog and the error handler may each return or throw (each awaited call
  settles one way or the other). A call made while the flag is set is dropped at the guard
  (C6) and leaves the flag to the run that holds it.
\<close>

theorem busy_flag_released:
  "(\<not> isSpeaking s \<longrightarrow> \<not> isSpeaking (fst (handleSpeech e t s))) \<and>
   (\<not> isExpanding s \<longrightarrow> \<not> isExpanding (fst (handleExpand e s))) \<and>
   (\<not> isGeneratingImg s \<longrightarrow> \<not> isGeneratingImg (fst (handleImageGen e s)))"
  by (simp add: handleSpeech_releases handleExpand_releases handleImageGen_releases)

theorem busy_flag_released_witness:
  "\<not> isSpeaking app0 \<and> \<not> isExpanding app0 \<and> \<not> isGeneratingImg app0 \<and>
   \<not> isSpeaking (fst (handleSpeech env_garbled ''Apple'' app0)) \<and>
   \<not> isExpanding (fst (handleExpand env_garbled app0)) \<and>
   \<not> isGeneratingImg (fst (handleImageGen env_garbled app0))"
  using busy_flag_released [of app0 env_garbled "''Apple''"]
  by (simp add: app0_def)

section \<open>The merge of an expansion\<close>

lemma handleExpand_success:
  assumes "selectedCategory (state s) = Some sel" and "\<not> isExpanding s"
    and "ensureApiKey e = (ev0, Inr b)"
    and "expandCategoryItems e (cat_name sel) (items sel) = (ev1, Inr newItems)"
    and "newItems \<noteq> []"
  shows "categories (fst (handleExpand e s)) = merge_items (cat_id sel) newItems (categories s)"
  using assms
  by (simp add: handleExpand_def expand_guard_def expand_begin_def expand_finish_def Let_def)

lemma merge_items_length: "length (merge_items k new cs) = length cs"
  by (simp add: merge_items_def)

lemma merge_items_nth:
  "i < length cs \<Longrightarrow>
   merge_items k new cs ! i =
     (if cat_id (cs ! i) = k then (cs ! i)\<lparr>items := items (cs ! i) @ new\<rparr> else cs ! i)"
  by (simp add: merge_items_def)

lemma merge_items_ids: "map cat_id (merge_items k new cs) = map cat_id cs"
  by (simp add: merge_items_def)

lemma app0_expand_hyps:
  "selectedCategory (state app0) = Some fruits"
  "\<not> isExpanding app0"
  "expandCategoryItems env_good (cat_name fruits) (items fruits) =
     ([Remote (ExpandReq ''Fruits'' [JStr ''Apple'', JStr ''Banana''])], Inr [cherry, date_item])"
  by (simp_all add: app0_def fruits_def expand_good)

text \<open>
  What the last stretch writes is the merge into the catalog of the closure, whatever the
  current catalog is.
\<close>

lemma expand_finish_writes_snapshot:
  assumes "snd (expandCategoryItems e (cat_name sel) (items sel)) = Inr newItems"
    and "newItems \<noteq> []"
  shows "categories (fst (expand_finish e c sel cur)) =
           merge_items (cat_id sel) newItems (categories c)"
  using assms by (simp add: expand_finish_def Let_def)

text \<open>
  In an uninterrupted run the closure's catalog is the current one, and the merge appends:
  the entry of the selected category has the items it had followed by the new ones, and
  every other entry is as it was.
\<close>

lemma uninterrupted_expand_appends:
  assumes "selectedCategory (state s) = Some sel" and "\<not> isExpanding s"
    and "ensureApiKey e = (ev0, Inr b)"
    and "expandCategoryItems e (cat_name sel) (items sel) = (ev1, Inr newItems)"
    and "newItems \<noteq> []"
    and "i < length (categories s)" and "cat_id (categories s ! i) = cat_id sel"
  shows "items (categories (fst (handleExpand e s)) ! i) = items (categories s ! i) @ newItems"
  using assms(6,7) by (simp add: handleExpand_success [OF assms(1-5)] merge_items_nth)

lemma uninterrupted_expand_keeps_others:
  assumes "selectedCategory (state s) = Some sel" and "\<not> isExpanding s"
    and "ensureApiKey e = (ev0, Inr b)"
    and "expandCategoryItems e (cat_name sel) (items sel) = (ev1, Inr newItems)"
    and "newItems \<noteq> []"
  shows "map cat_id (categories (fst (handleExpand e s))) = map cat_id (categories s) \<and>
         (\<forall>i < length (categories s).
            cat_id (categories s ! i) \<noteq> cat_id sel \<longrightarrow>
            categories (fst (handleExpand e s)) ! i = categories s ! i)"
  by (simp add: handleExpand_success [OF assms] merge_items_nth merge_items_ids)

text \<open>
  A run created in a render that has the flag set is refused. The revision in
  \<^verbatim>\<open>src/unnamed/part_001\<close> sets the flag in the stretch of the guard itself, so there
  every later click meets this case; the revisions in \<^verbatim>\<open>App.tsx\<close> set it one await
  later (\<open>overlap_flag_late\<close>).
\<close>

lemma expand_guard_refuses: "isExpanding c \<Longrightarrow> expand_guard c = None"
  by (simp add: expand_guard_def split: option.splits)

text \<open>The two overlapping runs: both are let in, and what each is answered.\<close>

lemma overlap_let_in:
  "expand_guard app0 = Some fruits" "expand_guard picked_animals = Some animals"
  by (simp_all add: expand_guard_def picked_animals_def pick_category_v5_def app0_def)

lemma overlap_flag_late:
  "\<not> isExpanding picked_animals" "isExpanding both_begun" "isExpanding both_begun_apart"
  by (simp_all add: both_begun_def both_begun_apart_def expand_begin_def ensureApiKey_def
      env_first_def env_second_def env_blank_def studio_def picked_animals_def
      pick_category_v5_def app0_def)

lemma overlap_answer_first:
  "snd (expandCategoryItems env_first (cat_name fruits) (items fruits)) = Inr [cherry, date_item]"
  by (simp add: expandCategoryItems_def env_first_def env_good_def getClient_def truthy_def
      items_good fruits_def)

lemma overlap_answers_second:
  "snd (expandCategoryItems env_second (cat_name fruits) (items fruits)) = Inr [nameless]"
  "snd (expandCategoryItems env_second (cat_name animals) (items animals)) = Inr [nameless_animal]"
  by (simp_all add: expandCategoryItems_def env_second_def env_blank_def env_good_def
      getClient_def truthy_def fruits_def animals_def items_of_text_def JSON_parse_def
      value_one_object make_item_def new_id_def clock_text index_text nameless_def
      nameless_animal_def)

text \<open>
  C8. The expand button is clicked twice on Fruits while the first run still waits for
  \<open>ensureApiKey\<close>; both runs pass the guard. The first run's merge gives Fruits the
  items Apple, Banana, Cherry, Date. The second run returns one new item; after its merge
  Fruits has Apple, Banana and that item: Cherry and Date, which were in the sequence
  before this merge, are gone.
\<close>

theorem overlapping_runs_drop_appended_items:
  "expand_guard app0 = Some fruits \<and>
   snd (expandCategoryItems env_first (cat_name fruits) (items fruits)) = Inr [cherry, date_item] \<and>
   snd (expandCategoryItems env_second (cat_name fruits) (items fruits)) = Inr [nameless] \<and>
   items (categories first_merged ! 1) = [apple, banana, cherry, date_item] \<and>
   items (categories second_merged ! 1) = [apple, banana, nameless]"
proof -
  have cats: "categories app0 = [animals, fruits]" by (simp add: app0_def)
  have a: "categories first_merged = merge_items (cat_id fruits) [cherry, date_item] (categories app0)"
    unfolding first_merged_def by (rule expand_finish_writes_snapshot [OF overlap_answer_first]) simp
  have b: "categories second_merged = merge_items (cat_id fruits) [nameless] (categories app0)"
    unfolding second_merged_def by (rule expand_finish_writes_snapshot [OF overlap_answers_second(1)]) simp
  show ?thesis
    by (simp add: overlap_let_in overlap_answer_first overlap_answers_second a b cats)
       (simp add: merge_items_def animals_def fruits_def)
qed

text \<open>
  C10. Expand is clicked on Fruits, Animals is picked while that run still waits for
  \<open>ensureApiKey\<close>, and expand is clicked on Animals; both runs pass the guard. The run
  for Fruits finishes first and Fruits has Apple, Banana, Cherry, Date. Then the run for
  Animals finishes: it is a successful expansion of Animals, and after its merge the entry
  of Fruits, a category other than the selected one, has Apple and Banana only.
\<close>

theorem overlapping_run_reverts_other_category:
  "expand_guard app0 = Some fruits \<and> expand_guard picked_animals = Some animals \<and>
   snd (expandCategoryItems env_second (cat_name animals) (items animals)) = Inr [nameless_animal] \<and>
   cat_id (categories fruits_merged ! 1) \<noteq> cat_id animals \<and>
   items (categories fruits_merged ! 1) = [apple, banana, cherry, date_item] \<and>
   items (categories animals_merged ! 1) = [apple, banana]"
proof -
  have cats: "categories app0 = [animals, fruits]" "categories picked_animals = [animals, fruits]"
    by (simp_all add: picked_animals_def pick_category_v5_def app0_def)
  have a: "categories fruits_merged = merge_items (cat_id fruits) [cherry, date_item] (categories app0)"
    unfolding fruits_merged_def by (rule expand_finish_writes_snapshot [OF overlap_answer_first]) simp
  have b: "categories animals_merged =
      merge_items (cat_id animals) [nameless_animal] (categories picked_animals)"
    unfolding animals_merged_def by (rule expand_finish_writes_snapshot [OF overlap_answers_second(2)]) simp
  show ?thesis
    by (simp add: overlap_let_in overlap_answer_first overlap_answers_second a b cats)
       (simp add: merge_items_def animals_def fruits_def)
qed

section \<open>The category picker\<close>

lemma pick_category_v5_showPersian: "showPersian (pick_category_v5 c s) = showPersian s"
  by (simp add: pick_category_v5_def)

lemma pick_category_v9_resets:
  "selectedCategory (state (pick_category_v9 c s)) = Some c \<and>
   learningIndex (pick_category_v9 c s) = 0 \<and> \<not> showPersian (pick_category_v9 c s)"
  by (simp add: pick_category_v9_def)

lemma prev_next_clear_reveal:
  "selectedCategory (state s) \<noteq> None \<Longrightarrow>
   \<not> showPersian (prev_item s) \<and> \<not> showPersian (next_item s)"
  by (auto simp: prev_item_def next_item_def)

text \<open>
  C9. The picker of the first revision, in the \<open>learning_detail\<close> view with the localized
  name revealed: picking Animals selects it and sets the index to 0, and the localized
  name stays revealed. The picker of the second revision clears it
  (\<open>pick_category_v9_resets\<close>), as PREV and NEXT do in both (\<open>prev_next_clear_reveal\<close>).
\<close>

theorem pick_category_v5_keeps_reveal:
  "view (state app0) = learning_detail \<and> showPersian app0 \<and>
   selectedCategory (state (pick_category_v5 animals app0)) = Some animals \<and>
   learningIndex (pick_category_v5 animals app0) = 0 \<and>
   showPersian (pick_category_v5 animals app0)"
  by (simp add: pick_category_v5_def app0_def)

section \<open>Speech: one remote attempt, one local fallback\<close>

lemma remote_calls_append: "remote_calls (xs @ ys) = remote_calls xs @ remote_calls ys"
  by (induction xs rule: remote_calls.induct) simp_all

lemma local_calls_append: "local_calls (xs @ ys) = local_calls xs @ local_calls ys"
  by (induction xs rule: local_calls.induct) simp_all

lemma notifications_append: "notifications (xs @ ys) = notifications xs @ notifications ys"
  by (induction xs rule: notifications.induct) simp_all

lemma generateSpeech_events:
  "fst (generateSpeech e t) = (if truthy (API_KEY e) then [Remote (SpeechReq t)] else [])"
  by (simp add: generateSpeech_def getClient_def)

lemma remote_speech_played: "snd (remote_speech e t) = remote_speech_ok e t"
  by (simp add: remote_speech_def remote_speech_ok_def split: prod.splits sum.splits)

lemma remote_speech_remote:
  "remote_calls (fst (remote_speech e t)) = (if truthy (API_KEY e) then [SpeechReq t] else [])"
  using generateSpeech_events [of e t]
  by (auto simp: remote_speech_def remote_calls_append split: prod.splits sum.splits)

lemma remote_speech_local: "local_calls (fst (remote_speech e t)) = []"
  using generateSpeech_events [of e t]
  by (auto simp: remote_speech_def local_calls_append split: prod.splits sum.splits if_splits)

lemma handleSpeech_trace:
  "\<not> isSpeaking s \<Longrightarrow>
   trace (fst (handleSpeech e t s)) =
     trace s @ fst (remote_speech e t) @ (if snd (remote_speech e t) then [] else [LocalSpeech t])"
  by (simp add: handleSpeech_def Let_def split: prod.splits sum.splits)

lemma remote_speech_ok_iff:
  "remote_speech_ok e t =
     (\<exists>audio. snd (generateSpeech e t) = Inr (Some audio) \<and> audio \<noteq> [] \<and>
              playTTSSound e audio t = Inr ())"
  by (auto simp: remote_speech_ok_def truthy_def split: sum.splits option.splits)

text \<open>
  C5. A run of \<open>handleSpeech\<close> for the text \<open>t\<close> that passes the guard makes at
  most one remote synthesis request (exactly one when an API key is set; none when
  \<open>getClient\<close> throws for want of one), and calls the local speech exactly once, with
  \<open>t\<close>, when the remote path fails (synthesis throws, returns no audio, or the playback
  throws) and not at all when the remote path succeeds (\<open>remote_speech_ok\<close>, spelled out
  in \<open>remote_speech_ok_iff\<close>).
\<close>

theorem speech_fallback:
  assumes "\<not> isSpeaking s"
  shows "remote_calls (trace (fst (handleSpeech e t s))) =
           remote_calls (trace s) @ (if truthy (API_KEY e) then [SpeechReq t] else []) \<and>
         local_calls (trace (fst (handleSpeech e t s))) =
           local_calls (trace s) @ (if remote_speech_ok e t then [] else [t])"
  by (simp add: handleSpeech_trace [OF assms] remote_calls_append local_calls_append
      remote_speech_remote remote_speech_local remote_speech_played)

lemma speech_env_facts:
  "remote_speech_ok env_good ''Apple''" "\<not> remote_speech_ok env_garbled ''Apple''"
  "\<not> remote_speech_ok env_nokey ''Apple''"
  by (simp_all add: remote_speech_ok_def generateSpeech_def getClient_def truthy_def
      env_good_def env_garbled_def env_nokey_def)

theorem speech_fallback_witness:
  "\<not> isSpeaking app0 \<and>
   remote_calls (trace (fst (handleSpeech env_good ''Apple'' app0))) = [SpeechReq ''Apple''] \<and>
   local_calls (trace (fst (handleSpeech env_good ''Apple'' app0))) = [] \<and>
   remote_calls (trace (fst (handleSpeech env_garbled ''Apple'' app0))) = [SpeechReq ''Apple''] \<and>
   local_calls (trace (fst (handleSpeech env_garbled ''Apple'' app0))) = [''Apple'']"
proof -
  have idle: "\<not> isSpeaking app0" by (simp add: app0_def)
  have key: "truthy (API_KEY env_good)" "truthy (API_KEY env_garbled)"
    by (simp_all add: truthy_def env_good_def env_garbled_def)
  have start: "trace app0 = []" by (simp add: app0_def)
  from speech_fallback [OF idle, of env_good "''Apple''"]
    speech_fallback [OF idle, of env_garbled "''Apple''"]
  show ?thesis by (simp add: idle key start speech_env_facts)
qed

section \<open>Image generation and the image store\<close>

lemma ensureApiKey_no_remote: "remote_calls (fst (ensureApiKey e)) = []"
  by (simp add: ensureApiKey_def split: option.splits sum.splits)

lemma handleApiError_no_remote: "remote_calls (fst (handleApiError e err)) = []"
  by (simp add: handleApiError_def Let_def split: option.splits)

lemma generateItemImage_remote:
  "truthy (API_KEY e) \<Longrightarrow> fst (generateItemImage e n c) = [Remote (ImageReq n)]"
  by (simp add: generateItemImage_def getClient_def)

lemma handleImageGen_remote:
  assumes "selectedCategory (state s) = Some sel"
    and "at_index (items sel) (learningIndex s) = Some item"
    and "\<not> isGeneratingImg s" and "ensureApiKey e = (ev0, Inr b)" and "truthy (API_KEY e)"
  shows "remote_calls (trace (fst (handleImageGen e s))) =
           remote_calls (trace s) @ [ImageReq (item_name item)]"
proof -
  have ev0: "remote_calls ev0 = []"
    using ensureApiKey_no_remote [of e] assms(4) by simp
  obtain ev1 r where g: "generateItemImage e (item_name item) (cat_name sel) = (ev1, r)"
    by (cases "generateItemImage e (item_name item) (cat_name sel)")
  with generateItemImage_remote [OF assms(5), of "item_name item" "cat_name sel"]
  have ev1: "ev1 = [Remote (ImageReq (item_name item))]" by simp
  show ?thesis
  proof (cases r)
    case (Inl err)
    obtain ev2 r2 where h: "handleApiError e err = (ev2, r2)" by (cases "handleApiError e err")
    with handleApiError_no_remote [of e err] have "remote_calls ev2 = []" by simp
    with assms g Inl h ev0 ev1 show ?thesis
      by (simp add: handleImageGen_def Let_def remote_calls_append)
  next
    case (Inr url)
    with assms g ev0 ev1 show ?thesis
      by (simp add: handleImageGen_def Let_def remote_calls_append)
  qed
qed

text \<open>
  C2, as the code has it. \<open>handleImageGen\<close> does not read the image store: a run that
  passes the guard and the key check with an API key set sends exactly one image request,
  whatever the store holds. The store is read by the display effect \<open>loadImage\<close> alone,
  which shows what is stored under the item's key and sends nothing.
\<close>

theorem image_gen_always_remote:
  assumes "current_item s = Some item" and "\<not> isGeneratingImg s"
    and "ensureApiKey e = (ev0, Inr b)" and "truthy (API_KEY e)"
  shows "remote_calls (trace (fst (handleImageGen e s))) =
           remote_calls (trace s) @ [ImageReq (item_name item)] \<and>
         trace (loadImage s) = trace s \<and>
         (view (state s) = learning_detail \<longrightarrow>
            itemImage (loadImage s) = imageStorage s (''img_v5_'' @ item_id item))"
proof -
  from assms(1) obtain sel where sel: "selectedCategory (state s) = Some sel"
    and it: "at_index (items sel) (learningIndex s) = Some item"
    by (auto simp: current_item_def split: option.splits)
  have "trace (loadImage s) = trace s"
    by (simp add: loadImage_def split: option.splits)
  moreover have "view (state s) = learning_detail \<longrightarrow>
      itemImage (loadImage s) = imageStorage s (''img_v5_'' @ item_id item)"
    using assms(1) by (simp add: loadImage_def)
  ultimately show ?thesis
    using handleImageGen_remote [OF sel it assms(2-4)] by simp
qed

lemma app0_banana: "current_item app0 = Some banana"
  by (simp add: current_item_def at_index_def app0_def fruits_def)

lemma image_good:
  "generateItemImage env_good (JStr ''Banana'') ''Fruits'' =
     ([Remote (ImageReq (JStr ''Banana''))], Inr (Some ''data:image/png;base64,iVBORw''))"
  by (simp add: generateItemImage_def getClient_def truthy_def env_good_def)

lemma image_first_run:
  "fst (handleImageGen env_good app0) =
     app0\<lparr>trace := [Remote (ImageReq (JStr ''Banana''))],
          imageStorage := [''img_v5_banana'' \<mapsto> ''data:image/png;base64,iVBORw''],
          itemImage := Some ''data:image/png;base64,iVBORw''\<rparr>"
  by (simp add: handleImageGen_def Let_def no_key_dialog truthy_def app0_def fruits_def banana_def
      at_index_def image_good)

theorem image_gen_always_remote_witness:
  "current_item app0 = Some banana \<and>
   remote_calls (trace (fst (handleImageGen env_good app0))) = [ImageReq (JStr ''Banana'')] \<and>
   trace (loadImage app0) = [] \<and> itemImage (loadImage app0) = None"
proof -
  have h: "\<not> isGeneratingImg app0" "truthy (API_KEY env_good)" "trace app0 = []"
    "view (state app0) = learning_detail" "imageStorage app0 = Map.empty"
    by (simp_all add: app0_def env_good_def truthy_def)
  from image_gen_always_remote [OF app0_banana h(1) no_key_dialog(1) h(2)]
  show ?thesis by (simp add: app0_banana h banana_def)
qed

text \<open>
  C2, as stated, fails: after a first run has written the asset of Banana to the store, a
  second run for the same item sends a second image request.
\<close>

theorem image_gen_twice_counterexample:
  "imageStorage (fst (handleImageGen env_good app0)) ''img_v5_banana'' =
     Some ''data:image/png;base64,iVBORw'' \<and>
   remote_calls (trace (fst (handleImageGen env_good (fst (handleImageGen env_good app0))))) =
     [ImageReq (JStr ''Banana''), ImageReq (JStr ''Banana'')]"
  by (simp add: image_first_run)
     (simp add: handleImageGen_def Let_def no_key_dialog truthy_def app0_def fruits_def banana_def
      at_index_def image_good)

section \<open>Identifiers of generated items\<close>

lemma string_of_nat_nonempty: "string_of_nat n \<noteq> []"
  by (subst string_of_nat.simps) simp

lemma string_of_nat_nonempty': "[] \<noteq> string_of_nat n"
  using string_of_nat_nonempty [of n] by auto

lemma digit_char_inj: "a < 10 \<Longrightarrow> b < 10 \<Longrightarrow> digit_char a = digit_char b \<Longrightarrow> a = b"
  by (simp add: digit_char_def nth_eq_iff_index_eq)

lemma digit_char_not_minus: "a < 10 \<Longrightarrow> digit_char a \<noteq> CHR ''-''"
proof -
  assume "a < 10"
  then have "digit_char a \<in> set ''0123456789''"
    unfolding digit_char_def by (intro nth_mem) simp
  then show ?thesis by auto
qed

lemma string_of_nat_no_minus: "CHR ''-'' \<notin> set (string_of_nat n)"
proof (induction n rule: string_of_nat.induct)
  case (1 n)
  show ?case
  proof (cases "n < 10")
    case True
    then show ?thesis
      using digit_char_not_minus [of n] by (subst string_of_nat.simps) auto
  next
    case False
    have "n mod 10 < 10" by simp
    then have "digit_char (n mod 10) \<noteq> CHR ''-''" by (rule digit_char_not_minus)
    with False 1 show ?thesis
      by (subst string_of_nat.simps) auto
  qed
qed

lemma string_of_nat_inj: "string_of_nat m = string_of_nat n \<Longrightarrow> m = n"
proof (induction m arbitrary: n rule: string_of_nat.induct)
  case (1 m)
  show ?case
  proof (cases "m < 10")
    case m: True
    show ?thesis
    proof (cases "n < 10")
      case True
      with m 1(2) show ?thesis
        by (simp add: string_of_nat.simps [of m] string_of_nat.simps [of n] digit_char_inj)
    next
      case False
      with m 1(2) show ?thesis
        by (simp add: string_of_nat.simps [of m] string_of_nat.simps [of n]
            string_of_nat_nonempty string_of_nat_nonempty')
    qed
  next
    case m: False
    show ?thesis
    proof (cases "n < 10")
      case True
      with m 1(2) show ?thesis
        by (simp add: string_of_nat.simps [of m] string_of_nat.simps [of n]
            string_of_nat_nonempty string_of_nat_nonempty')
    next
      case False
      with m 1(2) have eq: "string_of_nat (m div 10) = string_of_nat (n div 10)"
        and d: "digit_char (m mod 10) = digit_char (n mod 10)"
        by (simp_all add: string_of_nat.simps [of m] string_of_nat.simps [of n])
      from 1(1) [OF m eq] have "m div 10 = n div 10" .
      moreover have "m mod 10 = n mod 10"
        using d by (intro digit_char_inj) simp_all
      ultimately show ?thesis
        by (metis div_mult_mod_eq)
    qed
  qed
qed

lemma string_of_int_inj: "string_of_int a = string_of_int b \<Longrightarrow> a = b"
proof -
  assume eq: "string_of_int a = string_of_int b"
  have hd_no: "\<And>n. hd (string_of_nat n) \<noteq> CHR ''-''"
    using string_of_nat_no_minus string_of_nat_nonempty by (metis hd_in_set)
  have neq: "\<And>m n. CHR ''-'' # string_of_nat m \<noteq> string_of_nat n"
    using hd_no by (metis list.sel(1))
  show ?thesis
  proof (cases "a < 0")
    case a: True
    show ?thesis
    proof (cases "b < 0")
      case True
      with a eq have "nat (- a) = nat (- b)"
        by (simp add: string_of_int_def string_of_nat_inj)
      with a True show ?thesis by simp
    next
      case False
      with a eq neq show ?thesis by (simp add: string_of_int_def)
    qed
  next
    case a: False
    show ?thesis
    proof (cases "b < 0")
      case True
      with a eq neq [of "nat (- b)" "nat a"] show ?thesis by (simp add: string_of_int_def)
    next
      case False
      with a eq have "nat a = nat b"
        by (simp add: string_of_int_def string_of_nat_inj)
      with a False show ?thesis by simp
    qed
  qed
qed

lemma split_at_last:
  assumes "c \<notin> set ys" and "c \<notin> set ys'" and "xs @ c # ys = xs' @ c # ys'"
  shows "xs = xs' \<and> ys = ys'"
proof -
  have tw: "takeWhile (\<lambda>x. x \<noteq> c) (rev zs @ c # rev ws) = rev zs" if "c \<notin> set zs" for zs ws
    using that by (auto simp: takeWhile_tail)
  from assms(3) have "rev (xs @ c # ys) = rev (xs' @ c # ys')" by simp
  then have "rev ys @ c # rev xs = rev ys' @ c # rev xs'" by simp
  then have "takeWhile (\<lambda>x. x \<noteq> c) (rev ys @ c # rev xs) =
             takeWhile (\<lambda>x. x \<noteq> c) (rev ys' @ c # rev xs')" by simp
  then have "rev ys = rev ys'"
    by (simp only: tw [OF assms(1)] tw [OF assms(2)])
  then have "ys = ys'" by simp
  with assms(3) show ?thesis by simp
qed

lemma new_id_eq_iff: "(new_id c t i = new_id c t' i') = (t = t' \<and> i = i')"
proof
  assume "new_id c t i = new_id c t' i'"
  then have "string_of_int t @ CHR ''-'' # string_of_nat i =
             string_of_int t' @ CHR ''-'' # string_of_nat i'"
    by (simp add: new_id_def)
  then have "string_of_int t = string_of_int t' \<and> string_of_nat i = string_of_nat i'"
    by (rule split_at_last [OF string_of_nat_no_minus string_of_nat_no_minus])
  then show "t = t' \<and> i = i'"
    by (simp add: string_of_int_inj string_of_nat_inj)
next
  assume "t = t' \<and> i = i'"
  then show "new_id c t i = new_id c t' i'" by simp
qed

lemma make_item_id: "make_item c t i it = Inr x \<Longrightarrow> item_id x = new_id c t i"
  by (auto simp: make_item_def split: sum.splits)

lemma map_items_ids:
  "map_items c now k vs = Inr xs \<Longrightarrow>
   length xs = length vs \<and> (\<forall>i < length vs. item_id (xs ! i) = new_id c (now (k + i)) (k + i))"
proof (induction vs arbitrary: k xs)
  case Nil
  then show ?case by simp
next
  case (Cons v vs)
  from Cons.prems obtain x xs' where x: "make_item c (now k) k v = Inr x"
    and r: "map_items c now (Suc k) vs = Inr xs'" and xs: "xs = x # xs'"
    by (auto split: sum.splits)
  from Cons.IH [OF r] have len: "length xs' = length vs"
    and ids: "\<forall>i < length vs. item_id (xs' ! i) = new_id c (now (Suc k + i)) (Suc k + i)"
    by simp_all
  show ?case
  proof (intro conjI allI impI)
    show "length xs = length (v # vs)" using len xs by simp
  next
    fix i assume "i < length (v # vs)"
    then show "item_id (xs ! i) = new_id c (now (k + i)) (k + i)"
      using ids xs make_item_id [OF x] by (cases i) simp_all
  qed
qed

lemma items_of_text_ids:
  assumes "items_of_text msg c now t = Inr xs" and "i < length xs"
  shows "item_id (xs ! i) = new_id c (now i) i"
proof -
  from assms(1) obtain vs where "map_items c now 0 vs = Inr xs"
    by (auto simp: items_of_text_def split: sum.splits elim: data_map.elims)
  from map_items_ids [OF this] assms(2) show ?thesis by simp
qed

lemma items_of_text_distinct:
  assumes "items_of_text msg c now t = Inr xs"
  shows "distinct (map item_id xs)"
  unfolding distinct_conv_nth
  using items_of_text_ids [OF assms] by (simp add: new_id_eq_iff)

lemma expandCategoryItems_items:
  "snd (expandCategoryItems e c ex) = Inr xs \<Longrightarrow>
   \<exists>t. items_of_text (syntax_message e) c (Date_now e) t = Inr xs"
  by (auto simp: expandCategoryItems_def Let_def split: sum.splits)

lemma expand_blank:
  "expandCategoryItems env_blank ''Fruits'' [apple, banana, cherry, date_item] =
     ([Remote (ExpandReq ''Fruits'' [JStr ''Apple'', JStr ''Banana'', JStr ''Cherry'', JStr ''Date''])],
      Inr [nameless])"
  by (simp add: expandCategoryItems_def env_blank_def env_good_def getClient_def truthy_def
      items_of_text_def JSON_parse_def value_one_object make_item_def new_id_def clock_text
      index_text apple_def banana_def cherry_def date_item_def nameless_def)

text \<open>
  C3, as the code has it. The items of one batch have pairwise distinct identifiers. Two
  items of two batches for the same category have the same identifier exactly when they
  have the same index in their batch and \<^verbatim>\<open>Date.now()\<close> returned the same
  millisecond for both.
\<close>

theorem minted_ids:
  assumes "snd (expandCategoryItems e1 c ex1) = Inr xs"
    and "snd (expandCategoryItems e2 c ex2) = Inr ys"
  shows "distinct (map item_id xs) \<and> distinct (map item_id ys) \<and>
         (\<forall>i < length xs. \<forall>j < length ys.
            (item_id (xs ! i) = item_id (ys ! j)) = (i = j \<and> Date_now e1 i = Date_now e2 j))"
proof -
  from expandCategoryItems_items [OF assms(1)] obtain t1
    where a: "items_of_text (syntax_message e1) c (Date_now e1) t1 = Inr xs" by blast
  from expandCategoryItems_items [OF assms(2)] obtain t2
    where b: "items_of_text (syntax_message e2) c (Date_now e2) t2 = Inr ys" by blast
  show ?thesis
    using items_of_text_distinct [OF a] items_of_text_distinct [OF b]
      items_of_text_ids [OF a] items_of_text_ids [OF b]
    by (auto simp: new_id_eq_iff)
qed

theorem minted_ids_witness:
  "snd (expandCategoryItems env_good ''Fruits'' [apple, banana]) = Inr [cherry, date_item] \<and>
   snd (expandCategoryItems env_blank ''Fruits'' [apple, banana, cherry, date_item]) =
     Inr [nameless] \<and>
   distinct (map item_id [cherry, date_item]) \<and>
   (item_id cherry = item_id nameless) = (Date_now env_good 0 = Date_now env_blank 0)"
proof -
  have a: "snd (expandCategoryItems env_good ''Fruits'' [apple, banana]) = Inr [cherry, date_item]"
    by (simp add: expand_good)
  have b: "snd (expandCategoryItems env_blank ''Fruits'' [apple, banana, cherry, date_item]) =
    Inr [nameless]"
    by (simp add: expand_blank)
  from minted_ids [OF a b] have
    "distinct (map item_id [cherry, date_item])"
    "0 < length [cherry, date_item] \<longrightarrow> 0 < length [nameless] \<longrightarrow>
       (item_id ([cherry, date_item] ! 0) = item_id ([nameless] ! 0)) =
       (0 = (0::nat) \<and> Date_now env_good 0 = Date_now env_blank 0)"
    by blast+
  with a b show ?thesis by simp
qed

text \<open>
  C3, as stated, fails: an expansion of Fruits and a second one (called with the grown
  item list) whose callbacks read the same millisecond both mint the identifier
  \<^verbatim>\<open>dyn-Fruits-1700000000000-0\<close>.
\<close>

theorem same_millisecond_counterexample:
  "snd (expandCategoryItems env_good ''Fruits'' [apple, banana]) = Inr [cherry, date_item] \<and>
   snd (expandCategoryItems env_blank ''Fruits'' [apple, banana, cherry, date_item]) =
     Inr [nameless] \<and>
   \<not> distinct (map item_id ([cherry, date_item] @ [nameless]))"
  by (simp only: expand_good expand_blank) (simp add: cherry_def nameless_def)

section \<open>Loading the stored catalog\<close>

lemma JSON_parse_error: "JSON_parse msg s = Inl err \<Longrightarrow> err = SyntaxError (msg s)"
  by (auto simp: JSON_parse_def split: option.splits)

text \<open>
  C1, as the code has it. The load returns the built-in catalog when there is no stored
  record or the record is the empty string. Any other record goes to
  \<^verbatim>\<open>JSON.parse\<close> and the outcome is the load's outcome: a record that is not JSON
  makes the load throw the \<^verbatim>\<open>SyntaxError\<close> (\<open>JSON_parse_error\<close>), and a record
  that is JSON is returned as parsed, whether or not it is a catalog.
\<close>

theorem load_categories_cases:
  "load_categories msg INITIAL None = Inr INITIAL \<and>
   load_categories msg INITIAL (Some []) = Inr INITIAL \<and>
   (s \<noteq> [] \<longrightarrow> load_categories msg INITIAL (Some s) = JSON_parse msg s)"
  by (simp add: load_categories_def truthy_def)

theorem load_categories_cases_witness:
  "load_categories quoting_message initial_catalog None = Inr initial_catalog \<and>
   load_categories quoting_message initial_catalog (Some []) = Inr initial_catalog \<and>
   ''{}'' \<noteq> [] \<and> load_categories quoting_message initial_catalog (Some ''{}'') = Inr (JObj [])"
  using load_categories_cases [of quoting_message initial_catalog "''{}''"]
  by (simp add: JSON_parse_def value_empty_object)

text \<open>
  C1, as stated, fails: the record \<^verbatim>\<open>not json\<close> makes the load throw, and the
  record \<^verbatim>\<open>42\<close> makes it return the number 42, not the built-in catalog.
\<close>

theorem load_corrupt_counterexample:
  \<open>load_categories quoting_message initial_catalog (Some ''not json'') =
     Inl (SyntaxError ''Unexpected token, "not json" is not valid JSON'') \<and>
   load_categories quoting_message initial_catalog (Some ''42'') = Inr (JNum ''42'') \<and>
   JNum ''42'' \<noteq> initial_catalog\<close>
  by (simp add: load_categories_def truthy_def JSON_parse_def value_not_json value_number
      initial_catalog_def)

section \<open>A malformed answer to an expansion\<close>

lemma malformed_items:
  "malformed_response t \<Longrightarrow> \<exists>err. items_of_text msg c now t = Inl err"
  by (auto simp: malformed_response_def items_of_text_def JSON_parse_def
      split: option.splits jsval.splits)

lemma handleApiError_one_notification: "length (notifications (fst (handleApiError e err))) = 1"
  by (simp add: handleApiError_def Let_def split: option.splits)

lemma expandCategoryItems_failure:
  assumes "truthy (API_KEY e)"
    and "generateContent e (ExpandReq c (map item_name xs)) = Inr r"
    and "items_of_text (syntax_message e) c (Date_now e) (resp_text r) = Inl err"
  shows "expandCategoryItems e c xs = ([Remote (ExpandReq c (map item_name xs))], Inl err)"
  using assms by (simp add: expandCategoryItems_def getClient_def)

lemma handleExpand_failure:
  assumes "selectedCategory (state s) = Some sel" and "\<not> isExpanding s"
    and "ensureApiKey e = (ev0, Inr b)"
    and "expandCategoryItems e (cat_name sel) (items sel) = (ev1, Inl err)"
  shows "fst (handleExpand e s) = s\<lparr>trace := trace s @ ev0 @ ev1 @ fst (handleApiError e err)\<rparr>"
    and "snd (handleExpand e s) = (case snd (handleApiError e err) of Inl x \<Rightarrow> Some x | Inr _ \<Rightarrow> None)"
  using assms
  by (simp_all add: handleExpand_def expand_guard_def expand_begin_def expand_finish_def Let_def
      split: prod.splits)

lemma handleExpand_empty:
  assumes "selectedCategory (state s) = Some sel" and "\<not> isExpanding s"
    and "ensureApiKey e = (ev0, Inr b)"
    and "expandCategoryItems e (cat_name sel) (items sel) = (ev1, Inr [])"
  shows "handleExpand e s = (s\<lparr>trace := trace s @ ev0 @ ev1\<rparr>, None)"
  using assms
  by (simp add: handleExpand_def expand_guard_def expand_begin_def expand_finish_def Let_def)

lemma items_of_empty_text:
  "items_of_text msg c now None = Inr []" "items_of_text msg c now (Some []) = Inr []"
  "items_of_text msg c now (Some ''[]'') = Inr []"
  by (simp_all add: items_of_text_def JSON_parse_def truthy_def value_empty_array)

text \<open>
  C4, as the code has it. When the answer to the expansion request is not JSON, or is JSON
  but not an array, \<open>expandCategoryItems\<close> throws; \<open>handleExpand\<close> catches the
  error and hands it to \<open>handleApiError\<close>. The catalog, the selection and the image
  store are unchanged and the busy flag is released, and the user gets exactly one
  notification (an alert or the key dialog) more than before the request. Only an answer
  that is an empty array (or has no text) counts as zero new items with no notification
  (\<open>items_of_empty_text\<close>, \<open>handleExpand_empty\<close>).
\<close>

theorem expand_malformed_response:
  assumes "selectedCategory (state s) = Some sel" and "\<not> isExpanding s"
    and "ensureApiKey e = (ev0, Inr b)" and "truthy (API_KEY e)"
    and "generateContent e (ExpandReq (cat_name sel) (map item_name (items sel))) = Inr r"
    and "malformed_response (resp_text r)"
  shows "categories (fst (handleExpand e s)) = categories s \<and>
         state (fst (handleExpand e s)) = state s \<and>
         imageStorage (fst (handleExpand e s)) = imageStorage s \<and>
         \<not> isExpanding (fst (handleExpand e s)) \<and>
         length (notifications (trace (fst (handleExpand e s)))) =
           length (notifications (trace s @ ev0)) + 1"
proof -
  from malformed_items [OF assms(6)] obtain err
    where err: "items_of_text (syntax_message e) (cat_name sel) (Date_now e) (resp_text r) = Inl err"
    by blast
  note f = handleExpand_failure(1) [OF assms(1-3) expandCategoryItems_failure [OF assms(4,5) err]]
  show ?thesis
    using assms(2) by (simp add: f notifications_append handleApiError_one_notification)
qed

lemma garbled_response:
  "generateContent env_garbled (ExpandReq (cat_name fruits) (map item_name (items fruits))) =
     Inr \<lparr>resp_text = Some ''not json'', resp_parts = None\<rparr>"
  "malformed_response (Some ''not json'')"
  by (simp_all add: env_garbled_def malformed_response_def truthy_def value_not_json)

theorem expand_malformed_response_witness:
  "malformed_response (Some ''not json'') \<and>
   categories (fst (handleExpand env_garbled app0)) = [animals, fruits] \<and>
   \<not> isExpanding (fst (handleExpand env_garbled app0)) \<and>
   length (notifications (trace (fst (handleExpand env_garbled app0)))) = 1"
proof -
  have key: "truthy (API_KEY env_garbled)" by (simp add: truthy_def env_garbled_def env_good_def)
  have bad: "malformed_response (resp_text \<lparr>resp_text = Some ''not json'', resp_parts = None\<rparr>)"
    by (simp add: garbled_response(2))
  have start: "trace app0 = []" "categories app0 = [animals, fruits]" by (simp_all add: app0_def)
  from expand_malformed_response
    [OF app0_expand_hyps(1,2) no_key_dialog(2) key garbled_response(1) bad]
  show ?thesis by (simp add: garbled_response(2) start)
qed

lemma syntax_error_alert:
  "handleApiError env_garbled (SyntaxError (quoting_message ''not json'')) =
     ([Alert ''The Magic is taking a break (Connection error). Please try again in a moment!''],
      Inr ())"
  by (simp add: handleApiError_def env_garbled_def env_good_def)

text \<open>
  Which alert it is depends on the engine's message: for the answer \<^verbatim>\<open>monkey\<close> the
  quoting engine's message contains \<^verbatim>\<open>key\<close>, and the API-key alert is shown.
\<close>

lemma quoted_text_picks_alert:
  "json_value ''monkey'' = None \<and>
   fst (handleApiError env_garbled (SyntaxError (quoting_message ''monkey''))) =
     [Alert ''Please check your API Key configuration.'']"
  by (simp add: value_monkey handleApiError_def env_garbled_def env_good_def)

text \<open>
  C4, as stated, fails: for the answer \<^verbatim>\<open>not json\<close> the handler does not reject,
  but the user is shown an alert.
\<close>

theorem expand_garbled_counterexample:
  "malformed_response (Some ''not json'') \<and>
   snd (handleExpand env_garbled app0) = None \<and>
   notifications (trace (fst (handleExpand env_garbled app0))) =
     [Alert ''The Magic is taking a break (Connection error). Please try again in a moment!'']"
proof -
  have h: "expandCategoryItems env_garbled (cat_name fruits) (items fruits) =
     ([Remote (ExpandReq ''Fruits'' [JStr ''Apple'', JStr ''Banana''])],
      Inl (SyntaxError (quoting_message ''not json'')))"
    by (simp add: fruits_def expand_garbled del: quoting_message.simps)
  have start: "trace app0 = []" by (simp add: app0_def)
  note f = handleExpand_failure [OF app0_expand_hyps(1,2) no_key_dialog(2) h]
  show ?thesis
    by (simp add: f garbled_response(2) syntax_error_alert start del: quoting_message.simps)
qed

end
